theory Spec2Isabelle
  imports Complex_Main
begin

section \<open>JavaScript strings\<close>

text \<open>
  A JavaScript string is a sequence of UTF-16 code units. A code unit is modelled by its
  numeric value; \<open>str\<close> embeds an ASCII literal. \<open>length\<close> therefore counts what
  \<^verbatim>\<open>String.prototype.length\<close> and \<^verbatim>\<open>slice\<close> count.
\<close>

type_synonym jsstring = "nat list"

definition cu :: "char \<Rightarrow> nat" where
  "cu c = of_char c"

definition str :: "string \<Rightarrow> jsstring" where
  "str s = map cu s"

text \<open>
  \<^verbatim>\<open>String.prototype.trim\<close> removes WhiteSpace and LineTerminator code points from both
  ends: TAB, LF, VT, FF, CR, SP, NBSP, U+1680, U+2000..U+200A, U+2028, U+2029, U+202F,
  U+205F, U+3000 and U+FEFF.
\<close>

definition is_js_whitespace :: "nat \<Rightarrow> bool" where
  "is_js_whitespace c \<longleftrightarrow>
     (0x9 \<le> c \<and> c \<le> 0xD) \<or> c = 0x20 \<or> c = 0xA0 \<or> c = 0x1680 \<or>
     (0x2000 \<le> c \<and> c \<le> 0x200A) \<or> c = 0x2028 \<or> c = 0x2029 \<or> c = 0x202F \<or>
     c = 0x205F \<or> c = 0x3000 \<or> c = 0xFEFF"

definition trim :: "jsstring \<Rightarrow> jsstring" where
  "trim s = rev (dropWhile is_js_whitespace (rev (dropWhile is_js_whitespace s)))"

text \<open>
  \<^verbatim>\<open>s.split('_')\<close> with a one-character separator: the pieces between the separators,
  empty pieces included; the empty string gives one empty piece.
\<close>

fun split_on :: "nat \<Rightarrow> jsstring \<Rightarrow> jsstring list" where
  "split_on sep [] = [[]]"
| "split_on sep (c # cs) =
     (if c = sep then [] # split_on sep cs
      else (case split_on sep cs of
              [] \<Rightarrow> [[c]]
            | p # ps \<Rightarrow> (c # p) # ps))"

text \<open>Indexing an array: out of range is \<^verbatim>\<open>undefined\<close>, here \<open>None\<close>.\<close>

fun js_index :: "'a list \<Rightarrow> nat \<Rightarrow> 'a option" where
  "js_index [] i = None"
| "js_index (x # xs) 0 = Some x"
| "js_index (x # xs) (Suc i) = js_index xs i"

section \<open>Cleaning the generator's response\<close>

text \<open>
  The four \<^verbatim>\<open>replace\<close> calls and the \<^verbatim>\<open>trim\<close> of \<^verbatim>\<open>generateIntroSummary\<close>:
  \<^verbatim>\<open>
    responseText
      .replace(/```json\n?/gi, '')
      .replace(/```\n?/g, '')
      .replace(/^[^{]*({)/s, '$1')
      .replace(/(})[^}]*$/s, '$1')
      .trim()
  \<close>
  A global replace scans from the left and resumes after each match. Without the
  \<^verbatim>\<open>u\<close> flag, the \<^verbatim>\<open>i\<close> flag lets an ASCII letter match only its own two cases.
\<close>

definition eq_ci :: "nat \<Rightarrow> char \<Rightarrow> bool" where
  \<comment> \<open>the code unit is the lower-case ASCII letter \<open>l\<close> or its upper case\<close>
  "eq_ci c l \<longleftrightarrow> c = cu l \<or> c + 32 = cu l"

fun starts_with_json_fence :: "jsstring \<Rightarrow> bool" where
  "starts_with_json_fence (a # b # c # cj # cs # co # cn # rest) \<longleftrightarrow>
     a = 0x60 \<and> b = 0x60 \<and> c = 0x60 \<and>
     eq_ci cj CHR ''j'' \<and> eq_ci cs CHR ''s'' \<and> eq_ci co CHR ''o'' \<and> eq_ci cn CHR ''n''"
| "starts_with_json_fence _ \<longleftrightarrow> False"

fun starts_with_fence :: "jsstring \<Rightarrow> bool" where
  "starts_with_fence (a # b # c # rest) \<longleftrightarrow> a = 0x60 \<and> b = 0x60 \<and> c = 0x60"
| "starts_with_fence _ \<longleftrightarrow> False"

definition skip_newline :: "jsstring \<Rightarrow> jsstring" where
  \<comment> \<open>the optional \<^verbatim>\<open>\n?\<close> after a fence\<close>
  "skip_newline s = (case s of [] \<Rightarrow> [] | c # cs \<Rightarrow> if c = 0xA then cs else s)"

lemma length_skip_newline: "length (skip_newline s) \<le> length s"
  by (simp add: skip_newline_def split: list.split)

function remove_json_fences :: "jsstring \<Rightarrow> jsstring" where
  "remove_json_fences [] = []"
| "remove_json_fences (c # cs) =
     (if starts_with_json_fence (c # cs)
      then remove_json_fences (skip_newline (drop 6 cs))
      else c # remove_json_fences cs)"
  by pat_completeness auto
termination
proof (relation "measure length")
  fix c :: nat and cs :: jsstring
  have "length (skip_newline (drop 6 cs)) \<le> length (drop 6 cs)"
    by (rule length_skip_newline)
  then show "(skip_newline (drop 6 cs), c # cs) \<in> measure length"
    by simp
qed simp_all

function remove_fences :: "jsstring \<Rightarrow> jsstring" where
  "remove_fences [] = []"
| "remove_fences (c # cs) =
     (if starts_with_fence (c # cs)
      then remove_fences (skip_newline (drop 2 cs))
      else c # remove_fences cs)"
  by pat_completeness auto
termination
proof (relation "measure length")
  fix c :: nat and cs :: jsstring
  have "length (skip_newline (drop 2 cs)) \<le> length (drop 2 cs)"
    by (rule length_skip_newline)
  then show "(skip_newline (drop 2 cs), c # cs) \<in> measure length"
    by simp
qed simp_all

definition strip_before_first_brace :: "jsstring \<Rightarrow> jsstring" where
  \<comment> \<open>\<^verbatim>\<open>/^[^{]*({)/s\<close>: matches only when the text has an opening brace\<close>
  "strip_before_first_brace s =
     (if 0x7B \<in> set s then dropWhile (\<lambda>c. c \<noteq> 0x7B) s else s)"

definition strip_after_last_brace :: "jsstring \<Rightarrow> jsstring" where
  \<comment> \<open>\<^verbatim>\<open>/(})[^}]*$/s\<close>: the leftmost match starts at the last closing brace\<close>
  "strip_after_last_brace s =
     (if 0x7D \<in> set s then rev (dropWhile (\<lambda>c. c \<noteq> 0x7D) (rev s)) else s)"

definition clean_response :: "jsstring \<Rightarrow> jsstring" where
  "clean_response responseText =
     trim (strip_after_last_brace (strip_before_first_brace
       (remove_fences (remove_json_fences responseText))))"

section \<open>JSON values and \<^verbatim>\<open>JSON.parse\<close>\<close>

text \<open>
  \<^verbatim>\<open>JSON.parse\<close> is the platform's: it is modelled after the JSON grammar of ECMA-404.
  A number is kept as the exact value of its literal; an object as the list of its
  members in source order (a later duplicate key overrides an earlier one on lookup).
  \<open>None\<close> stands for the \<^verbatim>\<open>SyntaxError\<close>.
\<close>

datatype jsval =
    JNull
  | JBool bool
  | JNumber rat
  | JString jsstring
  | JArray "jsval list"
  | JObject "(jsstring \<times> jsval) list"

datatype token =
    TLBrace | TRBrace | TLBracket | TRBracket | TColon | TComma
  | TStr jsstring | TNum rat | TTrue | TFalse | TNull

definition is_digit :: "nat \<Rightarrow> bool" where
  "is_digit c \<longleftrightarrow> 0x30 \<le> c \<and> c \<le> 0x39"

definition is_json_ws :: "nat \<Rightarrow> bool" where
  "is_json_ws c \<longleftrightarrow> c = 0x20 \<or> c = 0x9 \<or> c = 0xA \<or> c = 0xD"

definition hex_val :: "nat \<Rightarrow> nat option" where
  "hex_val c =
     (if 0x30 \<le> c \<and> c \<le> 0x39 then Some (c - 0x30)
      else if 0x61 \<le> c \<and> c \<le> 0x66 then Some (c - 0x61 + 10)
      else if 0x41 \<le> c \<and> c \<le> 0x46 then Some (c - 0x41 + 10)
      else None)"

definition hex4 :: "nat \<Rightarrow> nat \<Rightarrow> nat \<Rightarrow> nat \<Rightarrow> nat option" where
  "hex4 h1 h2 h3 h4 =
     (case hex_val h1 of None \<Rightarrow> None | Some a \<Rightarrow>
      case hex_val h2 of None \<Rightarrow> None | Some b \<Rightarrow>
      case hex_val h3 of None \<Rightarrow> None | Some c \<Rightarrow>
      case hex_val h4 of None \<Rightarrow> None | Some d \<Rightarrow>
        Some (((a * 16 + b) * 16 + c) * 16 + d))"

definition unescape :: "nat \<Rightarrow> nat option" where
  \<comment> \<open>the one-character escapes \<^verbatim>\<open>\" \\ \/ \b \f \n \r \t\<close>\<close>
  "unescape e =
     (if e = 0x22 then Some 0x22
      else if e = 0x5C then Some 0x5C
      else if e = 0x2F then Some 0x2F
      else if e = cu CHR ''b'' then Some 0x8
      else if e = cu CHR ''f'' then Some 0xC
      else if e = cu CHR ''n'' then Some 0xA
      else if e = cu CHR ''r'' then Some 0xD
      else if e = cu CHR ''t'' then Some 0x9
      else None)"

definition cons_fst :: "'a \<Rightarrow> ('a list \<times> 'b) option \<Rightarrow> ('a list \<times> 'b) option" where
  "cons_fst x r = (case r of None \<Rightarrow> None | Some (xs, rest) \<Rightarrow> Some (x # xs, rest))"

text \<open>
  The body of a string literal, after its opening quote: the decoded string and the text
  after the closing quote. Control characters below U+0020 must be escaped.
\<close>

fun lex_string :: "jsstring \<Rightarrow> (jsstring \<times> jsstring) option" where
  "lex_string [] = None"
| "lex_string [c] = (if c = 0x22 then Some ([], []) else None)"
| "lex_string (c # e # cs) =
     (if c = 0x22 then Some ([], e # cs)
      else if c = 0x5C then
        (if e = cu CHR ''u'' then
           (case cs of
              h1 # h2 # h3 # h4 # cs' \<Rightarrow>
                (case hex4 h1 h2 h3 h4 of
                   None \<Rightarrow> None
                 | Some u \<Rightarrow> cons_fst u (lex_string cs'))
            | _ \<Rightarrow> None)
         else
           (case unescape e of
              None \<Rightarrow> None
            | Some d \<Rightarrow> cons_fst d (lex_string cs)))
      else if c < 0x20 then None
      else cons_fst c (lex_string (e # cs)))"

definition digits_val :: "jsstring \<Rightarrow> nat" where
  "digits_val ds = foldl (\<lambda>a d. 10 * a + (d - 0x30)) 0 ds"

definition lex_fraction :: "jsstring \<Rightarrow> (jsstring \<times> jsstring) option" where
  \<comment> \<open>an optional \<^verbatim>\<open>.\<close> followed by at least one digit\<close>
  "lex_fraction s =
     (case s of
        [] \<Rightarrow> Some ([], [])
      | c # cs \<Rightarrow>
          if c = 0x2E then
            (if takeWhile is_digit cs = [] then None
             else Some (takeWhile is_digit cs, dropWhile is_digit cs))
          else Some ([], s))"

definition lex_sign :: "jsstring \<Rightarrow> bool \<times> jsstring" where
  \<comment> \<open>the optional sign of an exponent; \<open>True\<close> is negative\<close>
  "lex_sign s =
     (case s of
        [] \<Rightarrow> (False, [])
      | c # cs \<Rightarrow> if c = 0x2D then (True, cs) else if c = 0x2B then (False, cs) else (False, s))"

definition lex_exponent :: "jsstring \<Rightarrow> (int \<times> jsstring) option" where
  \<comment> \<open>an optional \<^verbatim>\<open>e\<close> or \<^verbatim>\<open>E\<close>, an optional sign and at least one digit\<close>
  "lex_exponent s =
     (case s of
        [] \<Rightarrow> Some (0, [])
      | c # cs \<Rightarrow>
          if c = cu CHR ''e'' \<or> c = cu CHR ''E'' then
            (let (neg, ds) = lex_sign cs in
             if takeWhile is_digit ds = [] then None
             else Some ((if neg then - int (digits_val (takeWhile is_digit ds))
                         else int (digits_val (takeWhile is_digit ds))),
                        dropWhile is_digit ds))
          else Some (0, s))"

definition pow10 :: "int \<Rightarrow> rat" where
  "pow10 e = (if 0 \<le> e then 10 ^ nat e else 1 / 10 ^ nat (- e))"

text \<open>
  A number literal: an optional minus, an integer part without a superfluous leading
  zero, an optional fraction and an optional exponent. (After a leading zero a further
  digit can only start a second value, which no JSON text allows: it is refused here.)
\<close>

definition lex_number :: "jsstring \<Rightarrow> (rat \<times> jsstring) option" where
  "lex_number s =
     (let (neg, s1) = (case s of [] \<Rightarrow> (False, [])
                       | c # cs \<Rightarrow> if c = 0x2D then (True, cs) else (False, s));
          ip = takeWhile is_digit s1
      in if ip = [] \<or> (1 < length ip \<and> hd ip = 0x30) then None
         else
           (case lex_fraction (dropWhile is_digit s1) of
              None \<Rightarrow> None
            | Some (fp, s3) \<Rightarrow>
               (case lex_exponent s3 of
                  None \<Rightarrow> None
                | Some (ex, s4) \<Rightarrow>
                    Some ((if neg then - 1 else 1)
                          * (of_nat (digits_val ip) + of_nat (digits_val fp) / 10 ^ length fp)
                          * pow10 ex, s4))))"

definition cons_tok :: "token \<Rightarrow> token list option \<Rightarrow> token list option" where
  "cons_tok t r = (case r of None \<Rightarrow> None | Some ts \<Rightarrow> Some (t # ts))"

text \<open>Each lexer returns a remainder no longer than its input.\<close>

lemma lex_string_length: "lex_string cs = Some (s, r) \<Longrightarrow> length r < Suc (length cs)"
proof (induction cs arbitrary: s r rule: lex_string.induct)
  case 1
  then show ?case by simp
next
  case (2 c)
  then show ?case by (simp split: if_splits)
next
  case (3 c e cs)
  show ?case
  proof (cases "c = 0x22")
    case True
    with "3.prems" show ?thesis by simp
  next
    case notq: False
    show ?thesis
    proof (cases "c = 0x5C")
      case bs: True
      show ?thesis
      proof (cases "e = cu CHR ''u''")
        case True
        with "3.prems" notq bs obtain h1 h2 h3 h4 cs' u s' where
          cs: "cs = h1 # h2 # h3 # h4 # cs'" and h: "hex4 h1 h2 h3 h4 = Some u"
          and rec: "lex_string cs' = Some (s', r)"
          by (auto simp: cons_fst_def split: list.splits option.splits)
        have "length r < Suc (length cs')"
          using "3.IH"(1)[OF notq bs True] cs h rec by simp
        with cs show ?thesis by simp
      next
        case False
        with "3.prems" notq bs obtain d s' where
          d: "unescape e = Some d" and rec: "lex_string cs = Some (s', r)"
          by (auto simp: cons_fst_def split: option.splits)
        from "3.IH"(2)[OF notq bs False d rec] show ?thesis by simp
      qed
    next
      case nbs: False
      with "3.prems" notq obtain s' where
        c: "\<not> c < 0x20" and rec: "lex_string (e # cs) = Some (s', r)"
        by (auto simp: cons_fst_def split: if_splits option.splits)
      from "3.IH"(3)[OF notq nbs c rec] show ?thesis by simp
    qed
  qed
qed

lemma lex_fraction_length: "lex_fraction s = Some (fp, r) \<Longrightarrow> length r \<le> length s"
  by (auto simp: lex_fraction_def length_dropWhile_le le_SucI split: list.splits if_splits)

lemma lex_sign_length: "lex_sign s = (neg, r) \<Longrightarrow> length r \<le> length s"
  by (auto simp: lex_sign_def split: list.splits if_splits)

lemma lex_exponent_length: "lex_exponent s = Some (ex, r) \<Longrightarrow> length r \<le> length s"
proof (cases s)
  case Nil
  assume "lex_exponent s = Some (ex, r)"
  with Nil show ?thesis by (simp add: lex_exponent_def)
next
  case (Cons c cs)
  assume a: "lex_exponent s = Some (ex, r)"
  obtain neg ds where sg: "lex_sign cs = (neg, ds)" by (cases "lex_sign cs")
  have "length (dropWhile is_digit ds) \<le> length ds" by (rule length_dropWhile_le)
  moreover have "length ds \<le> length cs" using sg by (rule lex_sign_length)
  ultimately show ?thesis
    using a Cons sg by (auto simp: lex_exponent_def split: if_splits)
qed

lemma lex_number_length: "lex_number (c # cs) = Some (q, r) \<Longrightarrow> length r < Suc (length cs)"
proof -
  assume a: "lex_number (c # cs) = Some (q, r)"
  define s1 where "s1 = (if c = 0x2D then cs else c # cs)"
  have s1: "length s1 \<le> Suc (length cs)" by (simp add: s1_def)
  from a have ne: "takeWhile is_digit s1 \<noteq> []"
    by (auto simp: lex_number_def s1_def Let_def simp del: takeWhile.simps split: if_splits)
  then have "length (dropWhile is_digit s1) < length s1"
    by (cases s1) (auto simp: length_dropWhile_le less_Suc_eq_le split: if_splits)
  moreover from a obtain fp s3 ex where
    f: "lex_fraction (dropWhile is_digit s1) = Some (fp, s3)" and e: "lex_exponent s3 = Some (ex, r)"
    by (auto simp: lex_number_def s1_def Let_def simp del: takeWhile.simps dropWhile.simps
        split: if_splits option.splits)
  note lex_fraction_length[OF f] lex_exponent_length[OF e]
  ultimately show ?thesis using s1 by linarith
qed

text \<open>
  The token stream of a JSON text. Two value tokens with nothing between them are
  lexed as two tokens and refused by the parser, as the grammar refuses them.
\<close>

function tokenize :: "jsstring \<Rightarrow> token list option" where
  "tokenize [] = Some []"
| "tokenize (c # cs) =
     (if is_json_ws c then tokenize cs
      else if c = 0x7B then cons_tok TLBrace (tokenize cs)
      else if c = 0x7D then cons_tok TRBrace (tokenize cs)
      else if c = 0x5B then cons_tok TLBracket (tokenize cs)
      else if c = 0x5D then cons_tok TRBracket (tokenize cs)
      else if c = 0x3A then cons_tok TColon (tokenize cs)
      else if c = 0x2C then cons_tok TComma (tokenize cs)
      else if c = 0x22 then
        (case lex_string cs of
           None \<Rightarrow> None
         | Some (s, r) \<Rightarrow> cons_tok (TStr s) (tokenize r))
      else if c = 0x2D \<or> is_digit c then
        (case lex_number (c # cs) of
           None \<Rightarrow> None
         | Some (q, r) \<Rightarrow> cons_tok (TNum q) (tokenize r))
      else if take 4 (c # cs) = str ''true'' then cons_tok TTrue (tokenize (drop 3 cs))
      else if take 5 (c # cs) = str ''false'' then cons_tok TFalse (tokenize (drop 4 cs))
      else if take 4 (c # cs) = str ''null'' then cons_tok TNull (tokenize (drop 3 cs))
      else None)"
  by pat_completeness auto
termination
  by (relation "measure length") (auto dest: lex_string_length lex_number_length)

text \<open>
  Recursive descent over the tokens. The first argument bounds the depth of the
  recursion; every call consumes a token, so the number of tokens is enough
  (\<open>parse_value_fuel\<close> below).
\<close>

fun parse_value :: "nat \<Rightarrow> token list \<Rightarrow> (jsval \<times> token list) option"
  and parse_elements :: "nat \<Rightarrow> token list \<Rightarrow> (jsval list \<times> token list) option"
  and parse_members :: "nat \<Rightarrow> token list \<Rightarrow> ((jsstring \<times> jsval) list \<times> token list) option"
where
  "parse_value 0 ts = None"
| "parse_value (Suc n) [] = None"
| "parse_value (Suc n) (TNull # ts) = Some (JNull, ts)"
| "parse_value (Suc n) (TTrue # ts) = Some (JBool True, ts)"
| "parse_value (Suc n) (TFalse # ts) = Some (JBool False, ts)"
| "parse_value (Suc n) (TNum q # ts) = Some (JNumber q, ts)"
| "parse_value (Suc n) (TStr s # ts) = Some (JString s, ts)"
| "parse_value (Suc n) (TLBracket # ts) =
     (case ts of
        TRBracket # r \<Rightarrow> Some (JArray [], r)
      | _ \<Rightarrow> (case parse_elements n ts of
                None \<Rightarrow> None
              | Some (vs, r) \<Rightarrow> Some (JArray vs, r)))"
| "parse_value (Suc n) (TLBrace # ts) =
     (case ts of
        TRBrace # r \<Rightarrow> Some (JObject [], r)
      | _ \<Rightarrow> (case parse_members n ts of
                None \<Rightarrow> None
              | Some (ms, r) \<Rightarrow> Some (JObject ms, r)))"
| "parse_value (Suc n) (TRBrace # ts) = None"
| "parse_value (Suc n) (TRBracket # ts) = None"
| "parse_value (Suc n) (TColon # ts) = None"
| "parse_value (Suc n) (TComma # ts) = None"
| "parse_elements 0 ts = None"
| "parse_elements (Suc n) ts =
     (case parse_value n ts of
        None \<Rightarrow> None
      | Some (v, r) \<Rightarrow>
          (case r of
             TComma # r' \<Rightarrow> cons_fst v (parse_elements n r')
           | TRBracket # r' \<Rightarrow> Some ([v], r')
           | _ \<Rightarrow> None))"
| "parse_members 0 ts = None"
| "parse_members (Suc n) ts =
     (case ts of
        TStr k # TColon # ts' \<Rightarrow>
          (case parse_value n ts' of
             None \<Rightarrow> None
           | Some (v, r) \<Rightarrow>
               (case r of
                  TComma # r' \<Rightarrow> cons_fst (k, v) (parse_members n r')
                | TRBrace # r' \<Rightarrow> Some ([(k, v)], r')
                | _ \<Rightarrow> None))
      | _ \<Rightarrow> None)"

definition JSON_parse :: "jsstring \<Rightarrow> jsval option" where
  "JSON_parse s =
     (case tokenize s of
        None \<Rightarrow> None
      | Some ts \<Rightarrow>
          (case parse_value (length ts) ts of
             Some (v, []) \<Rightarrow> Some v
           | _ \<Rightarrow> None))"

text \<open>
  The bound is enough. A successful parse consumes at least one token, and it succeeds
  with the same result under any bound that is at least the number of tokens it
  consumes; so a text is refused by \<open>JSON_parse\<close> only when no bound would accept it.
\<close>

lemma parse_consumes:
  "(\<forall>ts v r. parse_value n ts = Some (v, r) \<longrightarrow> length r < length ts) \<and>
   (\<forall>ts vs r. parse_elements n ts = Some (vs, r) \<longrightarrow> length r < length ts) \<and>
   (\<forall>ts ms r. parse_members n ts = Some (ms, r) \<longrightarrow> length r < length ts)"
proof (induction n)
  case 0
  show ?case by simp
next
  case (Suc n)
  have v: "length r < length ts" if "parse_value (Suc n) ts = Some (v, r)" for ts v r
  proof (cases ts)
    case Nil
    with that show ?thesis by simp
  next
    case (Cons t ts')
    with that Suc show ?thesis
      by (cases t) (fastforce split: list.splits token.splits option.splits)+
  qed
  have e: "length r < length ts" if "parse_elements (Suc n) ts = Some (vs, r)" for ts vs r
    using that Suc
    by (fastforce simp: cons_fst_def split: list.splits token.splits option.splits)
  have m: "length r < length ts" if "parse_members (Suc n) ts = Some (ms, r)" for ts ms r
    using that Suc
    by (fastforce simp: cons_fst_def split: list.splits token.splits option.splits)
  from v e m show ?case by blast
qed

lemmas parse_value_consumes = parse_consumes [THEN conjunct1, rule_format]
lemmas parse_elements_consumes = parse_consumes [THEN conjunct2, THEN conjunct1, rule_format]
lemmas parse_members_consumes = parse_consumes [THEN conjunct2, THEN conjunct2, rule_format]

lemma parse_fuel:
  "(\<forall>ts v r m. parse_value n ts = Some (v, r) \<longrightarrow> length ts - length r \<le> m \<longrightarrow>
       parse_value m ts = Some (v, r)) \<and>
   (\<forall>ts vs r m. parse_elements n ts = Some (vs, r) \<longrightarrow> length ts - length r \<le> m \<longrightarrow>
       parse_elements m ts = Some (vs, r)) \<and>
   (\<forall>ts ms r m. parse_members n ts = Some (ms, r) \<longrightarrow> length ts - length r \<le> m \<longrightarrow>
       parse_members m ts = Some (ms, r))"
proof (induction n)
  case 0
  show ?case by simp
next
  case (Suc n)
  note IHv = Suc [THEN conjunct1, rule_format]
  note IHe = Suc [THEN conjunct2, THEN conjunct1, rule_format]
  note IHm = Suc [THEN conjunct2, THEN conjunct2, rule_format]
  have v: "parse_value m ts = Some (v, r)"
    if p: "parse_value (Suc n) ts = Some (v, r)" and le: "length ts - length r \<le> m"
    for ts v r m
  proof -
    from parse_value_consumes [OF p] le obtain m' where m: "m = Suc m'"
      by (cases m) auto
    from p obtain t ts' where ts: "ts = t # ts'"
      by (cases ts) auto
    show ?thesis
    proof (cases t)
      case TLBracket
      show ?thesis
      proof (cases "\<exists>r'. ts' = TRBracket # r'")
        case True
        with p ts TLBracket m show ?thesis by auto
      next
        case False
        with p ts TLBracket obtain vs where
          e: "parse_elements n ts' = Some (vs, r)" and v: "v = JArray vs"
          by (auto split: list.splits token.splits option.splits)
        from parse_elements_consumes [OF e] le ts m have "length ts' - length r \<le> m'"
          by simp
        from IHe [OF e this] False v ts TLBracket m show ?thesis
          by (auto split: list.splits token.splits)
      qed
    next
      case TLBrace
      show ?thesis
      proof (cases "\<exists>r'. ts' = TRBrace # r'")
        case True
        with p ts TLBrace m show ?thesis by auto
      next
        case False
        with p ts TLBrace obtain ms where
          e: "parse_members n ts' = Some (ms, r)" and v: "v = JObject ms"
          by (auto split: list.splits token.splits option.splits)
        from parse_members_consumes [OF e] le ts m have "length ts' - length r \<le> m'"
          by simp
        from IHm [OF e this] False v ts TLBrace m show ?thesis
          by (auto split: list.splits token.splits)
      qed
    qed (use p ts m in auto)
  qed
  have e: "parse_elements m ts = Some (vs, r)"
    if p: "parse_elements (Suc n) ts = Some (vs, r)" and le: "length ts - length r \<le> m"
    for ts vs r m
  proof -
    from parse_elements_consumes [OF p] le obtain m' where m: "m = Suc m'"
      by (cases m) auto
    from p obtain v r1 where pv: "parse_value n ts = Some (v, r1)"
      by (auto split: option.splits)
    note c1 = parse_value_consumes [OF pv]
    from p pv consider
      (more) r' vs' where "r1 = TComma # r'" "parse_elements n r' = Some (vs', r)" "vs = v # vs'"
      | (last) "r1 = TRBracket # r" "vs = [v]"
      by (auto simp: cons_fst_def split: list.splits token.splits option.splits)
    then show ?thesis
    proof cases
      case more
      note c2 = parse_elements_consumes [OF more(2)]
      from c1 c2 more(1) le m have "length ts - length r1 \<le> m'" and "length r' - length r \<le> m'"
        by auto
      from IHv [OF pv this(1)] IHe [OF more(2) this(2)] more m show ?thesis
        by (simp add: cons_fst_def)
    next
      case last
      from c1 last(1) le m have "length ts - length r1 \<le> m'"
        by auto
      from IHv [OF pv this] last m show ?thesis
        by simp
    qed
  qed
  have ms: "parse_members m ts = Some (ms, r)"
    if p: "parse_members (Suc n) ts = Some (ms, r)" and le: "length ts - length r \<le> m"
    for ts ms r m
  proof -
    from parse_members_consumes [OF p] le obtain m' where m: "m = Suc m'"
      by (cases m) auto
    from p obtain k ts' v r1 where ts: "ts = TStr k # TColon # ts'"
      and pv: "parse_value n ts' = Some (v, r1)"
      by (auto split: list.splits token.splits option.splits)
    note c1 = parse_value_consumes [OF pv]
    from p ts pv consider
      (more) r' ms' where "r1 = TComma # r'" "parse_members n r' = Some (ms', r)"
        "ms = (k, v) # ms'"
      | (last) "r1 = TRBrace # r" "ms = [(k, v)]"
      by (auto simp: cons_fst_def split: list.splits token.splits option.splits)
    then show ?thesis
    proof cases
      case more
      note c2 = parse_members_consumes [OF more(2)]
      from c1 c2 more(1) le m ts have "length ts' - length r1 \<le> m'"
        and "length r' - length r \<le> m'"
        by auto
      from IHv [OF pv this(1)] IHm [OF more(2) this(2)] more m ts show ?thesis
        by (simp add: cons_fst_def)
    next
      case last
      from c1 last(1) le m ts have "length ts' - length r1 \<le> m'"
        by auto
      from IHv [OF pv this] last m ts show ?thesis
        by simp
    qed
  qed
  from v e ms show ?case by blast
qed

lemma parse_value_fuel:
  "parse_value n ts = Some (v, r) \<Longrightarrow> parse_value (length ts) ts = Some (v, r)"
  using parse_fuel [THEN conjunct1, rule_format, of n ts v r "length ts"] by simp

lemma JSON_parse_None:
  assumes "JSON_parse s = None" and "tokenize s = Some ts"
  shows "parse_value n ts \<noteq> Some (v, [])"
proof
  assume "parse_value n ts = Some (v, [])"
  then have "parse_value (length ts) ts = Some (v, [])"
    by (rule parse_value_fuel)
  with assms show False
    by (simp add: JSON_parse_def)
qed

section \<open>Truthiness and member access\<close>

text \<open>
  \<^verbatim>\<open>a || b\<close> yields \<open>a\<close> when \<open>a\<close> is truthy. Of the values \<^verbatim>\<open>JSON.parse\<close> can
  return, \<^verbatim>\<open>null\<close>, \<^verbatim>\<open>false\<close>, the empty string and zero are falsy; every array
  and object is truthy, the empty ones included. A number literal denotes zero when its
  exact value rounds to zero in binary64, that is when its magnitude is at most \<open>1 / 2 ^ 1075\<close>.
  \<^verbatim>\<open>undefined\<close> (a missing member) is \<open>None\<close>.
\<close>

fun js_truthy :: "jsval \<Rightarrow> bool" where
  "js_truthy JNull \<longleftrightarrow> False"
| "js_truthy (JBool b) \<longleftrightarrow> b"
| "js_truthy (JNumber q) \<longleftrightarrow> 1 / 2 ^ 1075 < \<bar>q\<bar>"
| "js_truthy (JString s) \<longleftrightarrow> s \<noteq> []"
| "js_truthy (JArray vs) \<longleftrightarrow> True"
| "js_truthy (JObject ms) \<longleftrightarrow> True"

definition js_or :: "jsval option \<Rightarrow> jsval \<Rightarrow> jsval" where
  "js_or a b = (case a of None \<Rightarrow> b | Some v \<Rightarrow> if js_truthy v then v else b)"

definition or_default :: "jsstring \<Rightarrow> jsstring \<Rightarrow> jsstring" where
  \<comment> \<open>\<^verbatim>\<open>s || d\<close> on a string \<open>s\<close>\<close>
  "or_default s d = (if s = [] then d else s)"

text \<open>
  Reading a member of a non-null value, for the names read here (\<^verbatim>\<open>summary\<close>,
  \<^verbatim>\<open>experienceLevel\<close>, \<^verbatim>\<open>skills\<close>: none of them is a built-in member of a string, a
  number, a boolean or an array). Reading a member of \<^verbatim>\<open>null\<close> throws; the caller
  handles that case.
\<close>

fun get_member :: "jsval \<Rightarrow> jsstring \<Rightarrow> jsval option" where
  "get_member (JObject ms) k = map_of (rev ms) k"
| "get_member _ k = None"

section \<open>The content generator (\<^verbatim>\<open>utils/aiIntroSummary\<close>)\<close>

record intro_data =
  name :: jsstring
  role :: jsstring
  institution :: jsstring
  interests :: jsstring
  details :: jsstring

text \<open>
  The triple \<^verbatim>\<open>{summary, experienceLevel, skills}\<close>. The level is only ever one of the
  string constants of \<^verbatim>\<open>validLevels\<close>; the summary and the skills may be any value a
  JSON text can carry.
\<close>

record intro_summary =
  summary :: jsval
  experienceLevel :: jsstring
  skills :: jsval

datatype ai_error =
    ServiceNotAvailable   \<comment> \<open>\<^verbatim>\<open>initializeAI()\<close> returned no client\<close>
  | GeneratorThrew        \<comment> \<open>\<^verbatim>\<open>generateContent\<close> rejected\<close>
  | UnableToExtract       \<comment> \<open>no text in the response object\<close>
  | EmptyResponse         \<comment> \<open>empty or blank text\<close>
  | MemberOfNull          \<comment> \<open>the TypeError of reading a member of \<^verbatim>\<open>null\<close>\<close>

datatype ai_result =
    AiSuccess intro_summary             \<comment> \<open>\<^verbatim>\<open>{success: true, summary, experienceLevel, skills}\<close>\<close>
  | AiFailure ai_error intro_summary    \<comment> \<open>\<^verbatim>\<open>{success: false, error, fallback}\<close>\<close>

text \<open>What the call of the external generator comes to, text extraction included.\<close>

datatype gen_outcome =
    GenThrows
  | GenNoText
  | GenText jsstring

definition createFallbackSummary :: "intro_data \<Rightarrow> intro_summary" where
  "createFallbackSummary introData =
     \<lparr> summary = JString (or_default (name introData) (str ''This member'')
                           @ str '' is interested in ''
                           @ or_default (interests introData) (str ''AI and technology'')
                           @ str '' and wants to learn and grow in the AI community.''),
       experienceLevel = str ''Beginner'',
       skills = JString (str ''Not specified'') \<rparr>"

definition validLevels :: "jsstring list" where
  "validLevels = [str ''Beginner'', str ''Builder'', str ''Pro'']"

text \<open>
  \<^verbatim>\<open>generateIntroSummary\<close>. \<open>ai_ready\<close> tells whether \<^verbatim>\<open>initializeAI()\<close> returns a
  client; \<open>gen\<close> is the outcome of the one generator call (the prompt is built from
  \<open>introData\<close> and only sent; the outcome is the environment's).
\<close>

definition generateIntroSummary :: "bool \<Rightarrow> gen_outcome \<Rightarrow> intro_data \<Rightarrow> ai_result" where
  "generateIntroSummary ai_ready gen introData =
     (if \<not> ai_ready then AiFailure ServiceNotAvailable (createFallbackSummary introData)
      else
        (case gen of
           GenThrows \<Rightarrow> AiFailure GeneratorThrew (createFallbackSummary introData)
         | GenNoText \<Rightarrow> AiFailure UnableToExtract (createFallbackSummary introData)
         | GenText responseText \<Rightarrow>
             if responseText = [] \<or> trim responseText = []
             then AiFailure EmptyResponse (createFallbackSummary introData)
             else
               (let cleaned = clean_response responseText;
                    parsed = (case JSON_parse cleaned of
                                Some v \<Rightarrow> v
                              | None \<Rightarrow>
                                  JObject [(str ''summary'', JString (take 400 responseText)),
                                           (str ''experienceLevel'', JString (str ''Beginner'')),
                                           (str ''skills'', JString (str ''Not specified''))])
                in if parsed = JNull
                   then AiFailure MemberOfNull (createFallbackSummary introData)
                   else
                     (let level = (case get_member parsed (str ''experienceLevel'') of
                                     Some (JString l) \<Rightarrow>
                                       if l \<in> set validLevels then l else str ''Beginner''
                                   | _ \<Rightarrow> str ''Beginner'');
                          fallback = createFallbackSummary introData
                      in AiSuccess
                           \<lparr> summary = js_or (get_member parsed (str ''summary'')) (summary fallback),
                             experienceLevel = level,
                             skills = js_or (get_member parsed (str ''skills'')) (skills fallback) \<rparr>))))"

text \<open>
  The caller's choice between the result and its fallback (\<^verbatim>\<open>handleIntroModal\<close>,
  \<^verbatim>\<open>if (aiResult.success) ... else ...\<close>).
\<close>

definition chosen_summary :: "ai_result \<Rightarrow> intro_summary" where
  "chosen_summary aiResult =
     (case aiResult of
        AiSuccess s \<Rightarrow> s
      | AiFailure e fallback \<Rightarrow> fallback)"

datatype emoji = GreenCircle | YellowCircle | RedCircle | BlueCircle

definition getExperienceColor :: "jsstring \<Rightarrow> nat" where
  "getExperienceColor level =
     (if level = str ''Beginner'' then 0x00FF7F
      else if level = str ''Builder'' then 0xFFD700
      else if level = str ''Pro'' then 0xFF0000
      else 0x4A90E2)"

definition getExperienceEmoji :: "jsstring \<Rightarrow> emoji" where
  "getExperienceEmoji level =
     (if level = str ''Beginner'' then GreenCircle
      else if level = str ''Builder'' then YellowCircle
      else if level = str ''Pro'' then RedCircle
      else BlueCircle)"

section \<open>Store, channel and interactions\<close>

text \<open>
  The state the handlers act on: the profile store (one record per user id) and the
  messages of the profile channel (one artifact per message id).
\<close>

record profile =
  messageId :: "jsstring option"
  introData :: intro_data
  generated :: intro_summary

record artifact =
  color :: nat
  level_emoji :: emoji
  description :: jsstring                          \<comment> \<open>the mention of the user and the summary\<close>
  embed_fields :: "(jsstring \<times> jsval \<times> bool) list"  \<comment> \<open>label, value, inline\<close>
  components :: "jsstring list"                    \<comment> \<open>the custom ids of the two buttons\<close>

record world =
  store :: "jsstring \<rightharpoonup> profile"
  channel :: "jsstring \<rightharpoonup> artifact"

text \<open>
  An interaction: the acting user's id, the custom id of the control or modal, and the
  five text inputs of the form (empty when not filled in).
\<close>

record interaction =
  user :: jsstring
  customId :: jsstring
  intro_name :: jsstring
  intro_role :: jsstring
  intro_institution :: jsstring
  intro_interests :: jsstring
  intro_details :: jsstring

text \<open>
  What the platform and the configuration do during one handler run: whether the
  interaction can be deferred and a modal shown, the two places the channel id is read
  from, whether the channel resolves, the generator, whether an existing message can be
  fetched and deleted, and the id of the message a successful send creates (\<open>None\<close>:
  the send throws). \<open>number_text\<close> is the platform's conversion of a number to a string,
  which a template literal applies to a number it embeds.
\<close>

record env =
  defer_ok :: bool
  show_modal_ok :: bool
  config_profileChannelId :: "jsstring option"
  env_PROFILE_CHANNEL_ID :: "jsstring option"
  channel_reachable :: bool
  ai_ready :: bool
  generator :: gen_outcome
  fetch_ok :: bool
  delete_ok :: bool
  send_result :: "jsstring option"
  number_text :: "rat \<Rightarrow> jsstring"

text \<open>The texts sent to the user, by the place they are sent from.\<close>

datatype reply_text =
    NotConfigured        \<comment> \<open>Profile channel is not configured. Please ask an admin to run /setup-bot.\<close>
  | ChannelNotFound      \<comment> \<open>Could not find the profile channel. Please contact an admin.\<close>
  | Processing           \<comment> \<open>Processing your introduction with AI...\<close>
  | PostFailed           \<comment> \<open>Failed to post your profile. Please contact an admin.\<close>
  | Posted jsstring      \<comment> \<open>Your introduction has been posted! ... Experience Level: ...\<close>
  | ProcessingError      \<comment> \<open>Something went wrong while processing your introduction. Please try again.\<close>
  | ShowFormFailed       \<comment> \<open>Failed to show introduction form / update form\<close>
  | OwnUpdateOnly        \<comment> \<open>You can only update your own introduction.\<close>
  | OwnDeleteOnly        \<comment> \<open>You can only delete your own introduction.\<close>
  | ConfirmDelete        \<comment> \<open>Are you sure you want to delete your introduction? This cannot be undone.\<close>
  | IntroNotFound        \<comment> \<open>Could not find your introduction.\<close>
  | IntroDeleted         \<comment> \<open>Your introduction has been deleted.\<close>
  | DeletionCancelled    \<comment> \<open>Deletion cancelled.\<close>

datatype response =
    EditReply reply_text                  \<comment> \<open>\<^verbatim>\<open>interaction.editReply\<close>\<close>
  | Reply reply_text "jsstring list"      \<comment> \<open>\<^verbatim>\<open>interaction.reply\<close>, ephemeral, with the custom ids of its buttons\<close>
  | Update reply_text                     \<comment> \<open>\<^verbatim>\<open>interaction.update\<close>, components cleared\<close>
  | ShowModal "intro_data option"         \<comment> \<open>\<^verbatim>\<open>interaction.showModal\<close>, prefilled or not\<close>
  | SafeError reply_text                  \<comment> \<open>\<^verbatim>\<open>safeError\<close>\<close>

definition id_truthy :: "jsstring option \<Rightarrow> bool" where
  \<comment> \<open>an id that is neither \<^verbatim>\<open>undefined\<close> nor the empty string\<close>
  "id_truthy x = (case x of None \<Rightarrow> False | Some s \<Rightarrow> s \<noteq> [])"

definition id_or :: "jsstring option \<Rightarrow> jsstring option \<Rightarrow> jsstring option" where
  "id_or a b = (if id_truthy a then a else b)"

text \<open>
  Modelled from the spec: the profile store of \<^verbatim>\<open>utils/updateProfile\<close>, which is not
  among the sources. \<^verbatim>\<open>ProfileStore.get(userId) -> ProfileRecord | absent\<close>,
  \<^verbatim>\<open>ProfileStore.save(userId, artifactId, fields, summary, experienceLevel, skills)\<close>,
  \<^verbatim>\<open>ProfileStore.delete(userId)\<close>: one record per user id.
\<close>

definition getUserProfile :: "world \<Rightarrow> jsstring \<Rightarrow> profile option" where
  "getUserProfile w userId = store w userId"

definition saveUserProfile :: "jsstring \<Rightarrow> jsstring \<Rightarrow> intro_data \<Rightarrow> intro_summary \<Rightarrow> world \<Rightarrow> world" where
  "saveUserProfile userId mid formFields s w =
     w\<lparr>store := (store w)(userId \<mapsto>
         \<lparr>messageId = Some mid, introData = formFields, generated = s\<rparr>)\<rparr>"

definition deleteUserProfile :: "jsstring \<Rightarrow> world \<Rightarrow> world" where
  "deleteUserProfile userId w = w\<lparr>store := (store w)(userId := None)\<rparr>"

text \<open>
  The channel. A message is fetched when it exists and the platform answers;
  \<^verbatim>\<open>message.delete()\<close> removes it unless the platform refuses. \<open>None\<close>: one of the two
  calls threw. Fetching a channel by a missing id is refused by the platform.
\<close>

definition channels_fetch :: "env \<Rightarrow> jsstring option \<Rightarrow> bool" where
  "channels_fetch e channelId \<longleftrightarrow> id_truthy channelId \<and> channel_reachable e"

definition fetch_and_delete :: "env \<Rightarrow> jsstring \<Rightarrow> world \<Rightarrow> world option" where
  "fetch_and_delete e mid w =
     (if fetch_ok e \<and> channel w mid \<noteq> None \<and> delete_ok e
      then Some (w\<lparr>channel := (channel w)(mid := None)\<rparr>)
      else None)"

definition send :: "jsstring \<Rightarrow> artifact \<Rightarrow> world \<Rightarrow> world" where
  \<comment> \<open>the effect of a send that returned the message id \<open>mid\<close>\<close>
  "send mid a w = w\<lparr>channel := (channel w)(mid \<mapsto> a)\<rparr>"

section \<open>The handlers (\<^verbatim>\<open>handlers/introInteractions\<close>)\<close>

text \<open>
  Each handler takes the environment of its run, the interaction and the state, and
  returns the new state with the responses sent to the acting user, in order. Replies
  and store operations do not fail in this model; every \<^verbatim>\<open>try\<close> of the source
  around a channel call is a branch here, and so is the outer \<^verbatim>\<open>try\<close> of
  \<^verbatim>\<open>handleIntroModal\<close>, whose \<^verbatim>\<open>catch\<close> answers with \<^verbatim>\<open>safeError\<close> when the embed
  cannot be built.
\<close>

definition handleIntroButton :: "env \<Rightarrow> interaction \<Rightarrow> world \<Rightarrow> world \<times> response list" where
  "handleIntroButton e i w =
     (if show_modal_ok e then (w, [ShowModal None]) else (w, [SafeError ShowFormFailed]))"

definition form_data :: "interaction \<Rightarrow> intro_data" where
  \<comment> \<open>\<^verbatim>\<open>interaction.fields.getTextInputValue(...) || '...'\<close>, five times\<close>
  "form_data i =
     \<lparr> name = or_default (intro_name i) (str ''Not provided''),
       role = or_default (intro_role i) (str ''Not provided''),
       institution = or_default (intro_institution i) (str ''Not specified''),
       interests = or_default (intro_interests i) (str ''Not provided''),
       details = or_default (intro_details i) (str ''Not provided'') \<rparr>"

definition update_id :: "jsstring \<Rightarrow> jsstring" where
  "update_id userId = str ''update_intro_'' @ userId"

definition delete_id :: "jsstring \<Rightarrow> jsstring" where
  "delete_id userId = str ''delete_intro_'' @ userId"

definition confirm_id :: "jsstring \<Rightarrow> jsstring" where
  "confirm_id userId = str ''confirm_delete_intro_'' @ userId"

definition cancel_id :: "jsstring \<Rightarrow> jsstring" where
  "cancel_id userId = str ''cancel_delete_intro_'' @ userId"

text \<open>
  What a template literal makes of a value (\<^verbatim>\<open>ToString\<close>): a string is itself, an
  array is its elements joined by commas with \<^verbatim>\<open>null\<close> left empty, an object is
  \<^verbatim>\<open>[object Object]\<close>.
\<close>

fun join_comma :: "jsstring list \<Rightarrow> jsstring" where
  "join_comma [] = []"
| "join_comma [x] = x"
| "join_comma (x # y # ys) = x @ 0x2C # join_comma (y # ys)"

fun js_to_string :: "(rat \<Rightarrow> jsstring) \<Rightarrow> jsval \<Rightarrow> jsstring" where
  "js_to_string num JNull = str ''null''"
| "js_to_string num (JBool b) = (if b then str ''true'' else str ''false'')"
| "js_to_string num (JNumber q) = num q"
| "js_to_string num (JString s) = s"
| "js_to_string num (JArray vs) =
     join_comma (map (\<lambda>v. if v = JNull then [] else js_to_string num v) vs)"
| "js_to_string num (JObject ms) = str ''[object Object]''"

text \<open>
  The embed builder of the platform library validates what it is given and throws
  otherwise: a description is a string of at most 4096 code units, the value of a field
  is a string of 1 to 1024 code units. The title, the footer, the colour and the labels
  are constants within their limits.
\<close>

fun field_value_ok :: "jsval \<Rightarrow> bool" where
  "field_value_ok (JString s) \<longleftrightarrow> 1 \<le> length s \<and> length s \<le> 1024"
| "field_value_ok _ \<longleftrightarrow> False"

definition embed_description :: "(rat \<Rightarrow> jsstring) \<Rightarrow> jsstring \<Rightarrow> jsval \<Rightarrow> jsstring" where
  \<comment> \<open>\<^verbatim>\<open>`<@${interaction.user.id}>\n\n${summary}`\<close>\<close>
  "embed_description num userId v = str ''<@'' @ userId @ str ''>'' @ [0xA, 0xA] @ js_to_string num v"

definition raw_fields :: "intro_data \<Rightarrow> intro_summary \<Rightarrow> (jsstring \<times> jsval \<times> bool) list" where
  \<comment> \<open>the fields in the order they are added; the emoji in front of a label or of the level is left out\<close>
  "raw_fields d s =
     [(str ''Name'', JString (name d), True),
      (str ''Role / Study'', JString (role d), True),
      (str ''Experience'', JString (experienceLevel s), True)]
     @ (if institution d \<noteq> [] \<and> institution d \<noteq> str ''Not specified''
        then [(str ''Institution'', JString (institution d), True)] else [])
     @ [(str ''Interests'', JString (interests d), False),
        (str ''Skills'', skills s, False)]"

definition build_embed ::
  "(rat \<Rightarrow> jsstring) \<Rightarrow> jsstring \<Rightarrow> intro_data \<Rightarrow> intro_summary \<Rightarrow> artifact option" where
  \<comment> \<open>the embed and its row of two buttons; \<open>None\<close>: the builder threw\<close>
  "build_embed num userId d s =
     (if length (embed_description num userId (summary s)) \<le> 4096
         \<and> list_all (\<lambda>f. field_value_ok (fst (snd f))) (raw_fields d s)
      then Some \<lparr> color = getExperienceColor (experienceLevel s),
                  level_emoji = getExperienceEmoji (experienceLevel s),
                  description = embed_description num userId (summary s),
                  embed_fields = raw_fields d s,
                  components = [update_id userId, delete_id userId] \<rparr>
      else None)"

definition retract_existing :: "env \<Rightarrow> jsstring \<Rightarrow> world \<Rightarrow> world" where
  \<comment> \<open>the removal of the user's previous message, whose failure is only logged\<close>
  "retract_existing e userId w =
     (case getUserProfile w userId of
        None \<Rightarrow> w
      | Some existingProfile \<Rightarrow>
          (case messageId existingProfile of
             None \<Rightarrow> w
           | Some old \<Rightarrow>
               if old = [] then w
               else (case fetch_and_delete e old w of
                       None \<Rightarrow> w
                     | Some w' \<Rightarrow> w')))"

definition handleIntroModal :: "env \<Rightarrow> interaction \<Rightarrow> world \<Rightarrow> world \<times> response list" where
  "handleIntroModal e i w =
     (if \<not> defer_ok e then (w, [])
      else
        (let d = form_data i;
             profileChannelId = id_or (config_profileChannelId e) (env_PROFILE_CHANNEL_ID e)
         in if \<not> id_truthy profileChannelId then (w, [EditReply NotConfigured])
            else if \<not> channels_fetch e profileChannelId then (w, [EditReply ChannelNotFound])
            else
              (let s = chosen_summary (generateIntroSummary (ai_ready e) (generator e) d);
                   w1 = retract_existing e (user i) w
               in (case build_embed (number_text e) (user i) d s of
                     None \<Rightarrow> (w1, [EditReply Processing, SafeError ProcessingError])
                   | Some msg \<Rightarrow>
                       (case send_result e of
                          None \<Rightarrow> (w1, [EditReply Processing, EditReply PostFailed])
                        | Some mid \<Rightarrow>
                            (saveUserProfile (user i) mid d s (send mid msg w1),
                             [EditReply Processing, EditReply (Posted (experienceLevel s))]))))))"

text \<open>
  The owner a control is tagged with is read back from its custom id by position:
  \<^verbatim>\<open>interaction.customId.split('_')[2]\<close> (\<^verbatim>\<open>[3]\<close> for the confirmation).
\<close>

definition tagged_user :: "nat \<Rightarrow> interaction \<Rightarrow> jsstring option" where
  "tagged_user k i = js_index (split_on 0x5F (customId i)) k"

definition handleUpdateIntroButton :: "env \<Rightarrow> interaction \<Rightarrow> world \<Rightarrow> world \<times> response list" where
  "handleUpdateIntroButton e i w =
     (if Some (user i) \<noteq> tagged_user 2 i then (w, [Reply OwnUpdateOnly []])
      else if show_modal_ok e
        then (w, [ShowModal (map_option introData (getUserProfile w (user i)))])
        else (w, [SafeError ShowFormFailed]))"

definition handleDeleteIntroButton :: "env \<Rightarrow> interaction \<Rightarrow> world \<Rightarrow> world \<times> response list" where
  "handleDeleteIntroButton e i w =
     (if Some (user i) \<noteq> tagged_user 2 i then (w, [Reply OwnDeleteOnly []])
      else (w, [Reply ConfirmDelete [confirm_id (user i), cancel_id (user i)]]))"

definition handleConfirmDeleteIntro :: "env \<Rightarrow> interaction \<Rightarrow> world \<Rightarrow> world \<times> response list" where
  "handleConfirmDeleteIntro e i w =
     (if Some (user i) \<noteq> tagged_user 3 i then (w, [Update OwnDeleteOnly])
      else
        (case getUserProfile w (user i) of
           None \<Rightarrow> (w, [Update IntroNotFound])
         | Some userProfile \<Rightarrow>
             (case messageId userProfile of
                None \<Rightarrow> (w, [Update IntroNotFound])
              | Some mid \<Rightarrow>
                  if mid = [] then (w, [Update IntroNotFound])
                  else
                    (let profileChannelId =
                           id_or (config_profileChannelId e) (env_PROFILE_CHANNEL_ID e);
                         w1 = (if channels_fetch e profileChannelId
                               then (case fetch_and_delete e mid w of
                                       None \<Rightarrow> w
                                     | Some w' \<Rightarrow> w')
                               else w)
                     in (deleteUserProfile (user i) w1, [Update IntroDeleted])))))"

definition handleCancelDeleteIntro :: "env \<Rightarrow> interaction \<Rightarrow> world \<Rightarrow> world \<times> response list" where
  "handleCancelDeleteIntro e i w = (w, [Update DeletionCancelled])"


text \<open>
  The dispatch of \<^verbatim>\<open>interactionCreate\<close> for modal submissions and for buttons. The
  handlers of the project workflow are not among the sources; \<open>other\<close> stands for them.
\<close>

definition starts_with :: "jsstring \<Rightarrow> jsstring \<Rightarrow> bool" where
  "starts_with s p \<longleftrightarrow> take (length p) s = p"


definition on_button ::
  "(env \<Rightarrow> interaction \<Rightarrow> world \<Rightarrow> world \<times> response list) \<Rightarrow>
   env \<Rightarrow> interaction \<Rightarrow> world \<Rightarrow> world \<times> response list" where
  "on_button other e i w =
     (if customId i = str ''intro_button'' then handleIntroButton e i w
      else if starts_with (customId i) (str ''update_intro_'') then handleUpdateIntroButton e i w
      else if starts_with (customId i) (str ''delete_intro_'') then handleDeleteIntroButton e i w
      else if starts_with (customId i) (str ''confirm_delete_intro_'')
        then handleConfirmDeleteIntro e i w
      else if starts_with (customId i) (str ''cancel_delete_intro_'')
        then handleCancelDeleteIntro e i w
      else other e i w)"

section \<open>Evaluation on concrete texts\<close>

lemmas lex_defs =
  str_def cu_def is_json_ws_def is_digit_def cons_tok_def cons_fst_def unescape_def hex4_def
  hex_val_def lex_number_def lex_fraction_def lex_exponent_def lex_sign_def digits_val_def
  pow10_def JSON_parse_def

lemmas clean_defs =
  clean_response_def eq_ci_def skip_newline_def strip_before_first_brace_def
  strip_after_last_brace_def trim_def is_js_whitespace_def

definition ravi :: intro_data where
  "ravi = \<lparr> name = str ''Ravi'', role = [], institution = [], interests = str ''NLP'',
            details = [] \<rparr>"

definition fenced :: jsstring where
  "fenced =
     str ''```json\<newline>{\"summary\":\"x\",\"experienceLevel\":\"Pro\",\"skills\":\"Go\"}\<newline>```''"

lemma clean_fenced:
  "clean_response fenced =
     str ''{\"summary\":\"x\",\"experienceLevel\":\"Pro\",\"skills\":\"Go\"}''"
  by (simp add: fenced_def clean_defs str_def cu_def)

lemma parse_unfenced:
  "JSON_parse (str ''{\"summary\":\"x\",\"experienceLevel\":\"Pro\",\"skills\":\"Go\"}'') =
     Some (JObject [(str ''summary'', JString (str ''x'')),
                    (str ''experienceLevel'', JString (str ''Pro'')),
                    (str ''skills'', JString (str ''Go''))])"
  by (simp add: lex_defs)

section \<open>The fallback template\<close>

text \<open>
  Claim C4, as stated: the fallback for the fields \<^verbatim>\<open>{name: "Ravi", interests: "NLP"}\<close>
  has the summary "Ravi is interested in NLP and wants to learn and grow in the
  community.". It does not: the template of \<^verbatim>\<open>createFallbackSummary\<close> ends in
  "the AI community.".
\<close>

theorem fallback_ravi_counterexample:
  "summary (createFallbackSummary ravi)
     \<noteq> JString (str ''Ravi is interested in NLP and wants to learn and grow in the community.'')"
  by (simp add: createFallbackSummary_def ravi_def or_default_def str_def cu_def)

text \<open>
  Claim C4, amended: for a non-empty name and non-empty interests the fallback summary is
  "{name} is interested in {interests} and wants to learn and grow in the AI community.",
  the level is Beginner and the skills are "Not specified"; for Ravi and NLP this is
  "Ravi is interested in NLP and wants to learn and grow in the AI community.".
\<close>

theorem createFallbackSummary_template:
  assumes "name d \<noteq> []" and "interests d \<noteq> []"
  shows "createFallbackSummary d =
           \<lparr> summary = JString (name d @ str '' is interested in '' @ interests d
                                @ str '' and wants to learn and grow in the AI community.''),
             experienceLevel = str ''Beginner'',
             skills = JString (str ''Not specified'') \<rparr>"
  using assms by (simp add: createFallbackSummary_def or_default_def)

theorem createFallbackSummary_template_witness:
  "name ravi \<noteq> [] \<and> interests ravi \<noteq> [] \<and>
   createFallbackSummary ravi =
     \<lparr> summary = JString (str ''Ravi is interested in NLP and wants to learn and grow in the AI community.''),
       experienceLevel = str ''Beginner'',
       skills = JString (str ''Not specified'') \<rparr>"
  using createFallbackSummary_template [of ravi]
  by (simp add: ravi_def str_def cu_def)

section \<open>Recovering a fenced response\<close>

text \<open>
  Claim C9: the response \<^verbatim>\<open>```json\n{"summary":"x","experienceLevel":"Pro","skills":"Go"}\n```\<close>
  is cleaned and parsed to the object with exactly these three members, and
  \<^verbatim>\<open>generateIntroSummary\<close> returns summary "x", level Pro and skills "Go" for it,
  whatever the form fields.
\<close>

theorem fenced_response_recovered:
  "JSON_parse (clean_response fenced) =
     Some (JObject [(str ''summary'', JString (str ''x'')),
                    (str ''experienceLevel'', JString (str ''Pro'')),
                    (str ''skills'', JString (str ''Go''))])
   \<and> generateIntroSummary True (GenText fenced) d =
       AiSuccess \<lparr> summary = JString (str ''x''), experienceLevel = str ''Pro'',
                   skills = JString (str ''Go'') \<rparr>"
proof -
  have p: "JSON_parse (clean_response fenced) =
     Some (JObject [(str ''summary'', JString (str ''x'')),
                    (str ''experienceLevel'', JString (str ''Pro'')),
                    (str ''skills'', JString (str ''Go''))])"
    by (simp only: clean_fenced parse_unfenced)
  have ne: "fenced \<noteq> []" "trim fenced \<noteq> []"
    by (simp_all add: fenced_def trim_def is_js_whitespace_def str_def cu_def)
  have "generateIntroSummary True (GenText fenced) d =
       AiSuccess \<lparr> summary = JString (str ''x''), experienceLevel = str ''Pro'',
                   skills = JString (str ''Go'') \<rparr>"
    unfolding generateIntroSummary_def
    by (simp add: p ne Let_def js_or_def validLevels_def) (simp add: str_def cu_def)
  with p show ?thesis by simp
qed

section \<open>Coercion of the experience level\<close>

definition expert :: jsstring where
  "expert = str ''{\"summary\":\"x\",\"experienceLevel\":\"Expert\",\"skills\":\"Go\"}''"

lemma clean_expert: "clean_response expert = expert"
  by (simp add: expert_def clean_defs str_def cu_def)

lemma parse_expert:
  "JSON_parse expert =
     Some (JObject [(str ''summary'', JString (str ''x'')),
                    (str ''experienceLevel'', JString (str ''Expert'')),
                    (str ''skills'', JString (str ''Go''))])"
  by (simp add: expert_def lex_defs)

text \<open>
  Claim C8: when the response parses and its \<^verbatim>\<open>experienceLevel\<close> member is not one of
  the strings Beginner, Builder, Pro (it is another string such as "Expert", another kind
  of value, or missing), the level handed to the caller is Beginner. A response that
  parses to \<^verbatim>\<open>null\<close> is covered: the caller then takes the fallback, whose level is
  Beginner.
\<close>

theorem level_outside_enumeration_coerced:
  assumes "responseText \<noteq> []" and "trim responseText \<noteq> []"
    and "JSON_parse (clean_response responseText) = Some parsed"
    and "get_member parsed (str ''experienceLevel'') \<notin> (\<lambda>l. Some (JString l)) ` set validLevels"
  shows "experienceLevel (chosen_summary (generateIntroSummary True (GenText responseText) d))
           = str ''Beginner''"
proof (cases "parsed = JNull")
  case True
  with assms show ?thesis
    by (simp add: generateIntroSummary_def chosen_summary_def createFallbackSummary_def)
next
  case False
  have "(case get_member parsed (str ''experienceLevel'') of
           Some (JString l) \<Rightarrow> if l \<in> set validLevels then l else str ''Beginner''
         | _ \<Rightarrow> str ''Beginner'') = str ''Beginner''"
    using assms(4) by (auto split: option.splits jsval.splits)
  with assms(1-3) False show ?thesis
    by (simp add: generateIntroSummary_def chosen_summary_def Let_def)
qed

theorem level_outside_enumeration_coerced_witness:
  "experienceLevel (chosen_summary (generateIntroSummary True (GenText expert) ravi))
     = str ''Beginner''"
proof -
  have 1: "expert \<noteq> []" and 2: "trim expert \<noteq> []"
    by (simp_all add: expert_def trim_def is_js_whitespace_def str_def cu_def)
  have 3: "JSON_parse (clean_response expert) =
     Some (JObject [(str ''summary'', JString (str ''x'')),
                    (str ''experienceLevel'', JString (str ''Expert'')),
                    (str ''skills'', JString (str ''Go''))])"
    by (simp only: clean_expert parse_expert)
  have 4: "get_member (JObject [(str ''summary'', JString (str ''x'')),
                    (str ''experienceLevel'', JString (str ''Expert'')),
                    (str ''skills'', JString (str ''Go''))]) (str ''experienceLevel'')
             \<notin> (\<lambda>l. Some (JString l)) ` set validLevels"
    by (simp add: validLevels_def str_def cu_def)
  show ?thesis
    by (rule level_outside_enumeration_coerced [OF 1 2 3 4])
qed

section \<open>Responses that do not parse\<close>

definition not_json :: jsstring where
  "not_json = str ''not json at all''"

lemma clean_not_json: "clean_response not_json = not_json"
  by (simp add: not_json_def clean_defs str_def cu_def)

lemma parse_not_json: "JSON_parse not_json = None"
  by (simp add: not_json_def lex_defs)

lemma unparsed_object_members:
  "get_member (JObject [(str ''summary'', a), (str ''experienceLevel'', b), (str ''skills'', c)])
     (str ''summary'') = Some a"
  "get_member (JObject [(str ''summary'', a), (str ''experienceLevel'', b), (str ''skills'', c)])
     (str ''experienceLevel'') = Some b"
  "get_member (JObject [(str ''summary'', a), (str ''experienceLevel'', b), (str ''skills'', c)])
     (str ''skills'') = Some c"
  by (simp_all add: str_def cu_def)

lemma Beginner_valid: "str ''Beginner'' \<in> set validLevels"
  by (simp add: validLevels_def)

text \<open>
  Claim C5, as stated: a response that cannot be recovered as JSON yields the fallback
  template, as a transport error does. It does not: for "not json at all" the parse
  fails and the summary is the response text itself, not the template.
\<close>

theorem unparseable_text_counterexample:
  "JSON_parse (clean_response not_json) = None
   \<and> summary (chosen_summary (generateIntroSummary True (GenText not_json) ravi)) = JString not_json
   \<and> chosen_summary (generateIntroSummary True (GenText not_json) ravi)
       \<noteq> createFallbackSummary ravi"
proof -
  have p: "JSON_parse (clean_response not_json) = None"
    by (simp only: clean_not_json parse_not_json)
  have ne: "not_json \<noteq> []" "trim not_json \<noteq> []"
    by (simp_all add: not_json_def trim_def is_js_whitespace_def str_def cu_def)
  have t: "take 400 not_json = not_json"
    by (simp add: not_json_def str_def)
  have s: "summary (chosen_summary (generateIntroSummary True (GenText not_json) ravi))
             = JString not_json"
    using ne by (simp add: generateIntroSummary_def chosen_summary_def p Let_def
        unparsed_object_members js_or_def t Beginner_valid del: get_member.simps)
  have "summary (createFallbackSummary ravi) \<noteq> JString not_json"
    by (simp add: createFallbackSummary_def ravi_def or_default_def not_json_def str_def cu_def)
  with s p show ?thesis by auto
qed

text \<open>
  Claim C5, amended: for a non-blank response that is not recoverable as JSON after the
  cleaning step, the result is a success whose summary is the first 400 code units of
  the raw response, with level Beginner and skills "Not specified"; the fallback
  template is what the caller gets for an empty or blank response, for a generator call
  that throws or carries no text, and when the generator is not available.
\<close>

theorem unparseable_text_becomes_summary:
  "(responseText \<noteq> [] \<and> trim responseText \<noteq> [] \<and>
      JSON_parse (clean_response responseText) = None \<longrightarrow>
      generateIntroSummary True (GenText responseText) d =
        AiSuccess \<lparr> summary = JString (take 400 responseText),
                    experienceLevel = str ''Beginner'',
                    skills = JString (str ''Not specified'') \<rparr>)
   \<and> (responseText = [] \<or> trim responseText = [] \<longrightarrow>
        chosen_summary (generateIntroSummary True (GenText responseText) d)
          = createFallbackSummary d)
   \<and> chosen_summary (generateIntroSummary True GenThrows d) = createFallbackSummary d
   \<and> chosen_summary (generateIntroSummary True GenNoText d) = createFallbackSummary d
   \<and> chosen_summary (generateIntroSummary False gen d) = createFallbackSummary d"
proof -
  have ns: "str ''Not specified'' \<noteq> []"
    by (simp add: str_def)
  show ?thesis
    by (auto simp: generateIntroSummary_def chosen_summary_def Let_def
        unparsed_object_members js_or_def Beginner_valid ns simp del: get_member.simps)
qed

theorem unparseable_text_becomes_summary_witness:
  "generateIntroSummary True (GenText not_json) ravi =
     AiSuccess \<lparr> summary = JString not_json, experienceLevel = str ''Beginner'',
                 skills = JString (str ''Not specified'') \<rparr>"
proof -
  have p: "JSON_parse (clean_response not_json) = None"
    by (simp only: clean_not_json parse_not_json)
  have ne: "not_json \<noteq> []" "trim not_json \<noteq> []"
    by (simp_all add: not_json_def trim_def is_js_whitespace_def str_def cu_def)
  have t: "take 400 not_json = not_json"
    by (simp add: not_json_def str_def)
  show ?thesis
    using unparseable_text_becomes_summary [of not_json ravi] p ne t by simp
qed

section \<open>The summary handed to the caller\<close>

text \<open>
  A summary or a skills value that is text and not empty; and a member of the parsed
  response that is a string, missing, or falsy (and so replaced by the fallback's).
\<close>

fun nonempty_text :: "jsval \<Rightarrow> bool" where
  "nonempty_text (JString s) \<longleftrightarrow> s \<noteq> []"
| "nonempty_text _ \<longleftrightarrow> False"

definition text_or_unset :: "jsval option \<Rightarrow> bool" where
  "text_or_unset x =
     (case x of
        None \<Rightarrow> True
      | Some v \<Rightarrow> (case v of JString s \<Rightarrow> True | _ \<Rightarrow> \<not> js_truthy v))"

definition empties :: jsstring where
  "empties = str ''{\"summary\":[],\"experienceLevel\":\"Pro\",\"skills\":[]}''"

lemma clean_empties: "clean_response empties = empties"
  by (simp add: empties_def clean_defs str_def cu_def)

lemma parse_empties:
  "JSON_parse empties =
     Some (JObject [(str ''summary'', JArray []),
                    (str ''experienceLevel'', JString (str ''Pro'')),
                    (str ''skills'', JArray [])])"
  by (simp add: empties_def lex_defs)

lemma Pro_valid: "str ''Pro'' \<in> set validLevels"
  by (simp add: validLevels_def)

text \<open>
  For the response \<^verbatim>\<open>{"summary":[],"experienceLevel":"Pro","skills":[]}\<close> the summary
  and the skills are the empty array, which is truthy and so is kept by
  \<^verbatim>\<open>parsed.summary || fallback.summary\<close>.
\<close>

lemma empty_array_summary:
  "summary (chosen_summary (generateIntroSummary True (GenText empties) ravi)) = JArray []
   \<and> skills (chosen_summary (generateIntroSummary True (GenText empties) ravi)) = JArray []
   \<and> \<not> nonempty_text (summary (chosen_summary (generateIntroSummary True (GenText empties) ravi)))"
proof -
  have p: "JSON_parse (clean_response empties) =
     Some (JObject [(str ''summary'', JArray []),
                    (str ''experienceLevel'', JString (str ''Pro'')),
                    (str ''skills'', JArray [])])"
    by (simp only: clean_empties parse_empties)
  have ne: "empties \<noteq> []" "trim empties \<noteq> []"
    by (simp_all add: empties_def trim_def is_js_whitespace_def str_def cu_def)
  show ?thesis
    using ne by (simp add: generateIntroSummary_def chosen_summary_def p Let_def
        unparsed_object_members js_or_def Pro_valid del: get_member.simps)
qed

lemma fallback_usable:
  "nonempty_text (summary (createFallbackSummary d))"
  "nonempty_text (skills (createFallbackSummary d))"
  "experienceLevel (createFallbackSummary d) = str ''Beginner''"
  by (simp_all add: createFallbackSummary_def str_def)

lemma nonempty_text_truthy: "nonempty_text v \<Longrightarrow> js_truthy v"
  by (cases v) simp_all

lemma js_or_truthy: "js_truthy b \<Longrightarrow> js_truthy (js_or a b)"
  by (simp add: js_or_def split: option.split)

lemma js_or_text: "text_or_unset a \<Longrightarrow> nonempty_text b \<Longrightarrow> nonempty_text (js_or a b)"
  by (cases a; cases "the a") (auto simp: js_or_def text_or_unset_def)

lemma coerced_level_valid:
  "(case x of
      Some (JString l) \<Rightarrow> if l \<in> set validLevels then l else str ''Beginner''
    | _ \<Rightarrow> str ''Beginner'') \<in> set validLevels"
  by (auto simp: Beginner_valid split: option.split jsval.split)

lemma success_usable:
  assumes "generateIntroSummary ai gen d = AiSuccess s"
  shows "experienceLevel s \<in> set validLevels \<and> js_truthy (summary s) \<and> js_truthy (skills s)"
proof -
  from assms obtain parsed where
    s: "s = \<lparr> summary = js_or (get_member parsed (str ''summary'')) (summary (createFallbackSummary d)),
             experienceLevel = (case get_member parsed (str ''experienceLevel'') of
                                  Some (JString l) \<Rightarrow>
                                    if l \<in> set validLevels then l else str ''Beginner''
                                | _ \<Rightarrow> str ''Beginner''),
             skills = js_or (get_member parsed (str ''skills'')) (skills (createFallbackSummary d)) \<rparr>"
    by (auto simp: generateIntroSummary_def Let_def split: if_splits gen_outcome.splits)
  show ?thesis
    unfolding s
    by (simp add: coerced_level_valid js_or_truthy nonempty_text_truthy fallback_usable
        del: get_member.simps)
qed


lemma failure_is_fallback:
  "generateIntroSummary ai gen d = AiFailure err fb \<Longrightarrow> fb = createFallbackSummary d"
  by (auto simp: generateIntroSummary_def Let_def split: if_splits gen_outcome.splits)

lemma success_text:
  assumes r: "generateIntroSummary ai gen d = AiSuccess s"
    and h: "\<forall>t v. gen = GenText t \<and> JSON_parse (clean_response t) = Some v \<longrightarrow>
              text_or_unset (get_member v (str ''summary'')) \<and>
              text_or_unset (get_member v (str ''skills''))"
  shows "nonempty_text (summary s) \<and> nonempty_text (skills s)"
proof -
  from r obtain t where g: "gen = GenText t" and t: "t \<noteq> []"
    by (auto simp: generateIntroSummary_def split: if_splits gen_outcome.splits)
  show ?thesis
  proof (cases "JSON_parse (clean_response t)")
    case None
    have "take 400 t \<noteq> []" using t by simp
    moreover have "str ''Not specified'' \<noteq> []" by (simp add: str_def)
    ultimately show ?thesis
      using r g None
      by (auto simp: generateIntroSummary_def Let_def unparsed_object_members js_or_def
          simp del: get_member.simps split: if_splits)
  next
    case (Some v)
    with h g have "text_or_unset (get_member v (str ''summary''))"
      and "text_or_unset (get_member v (str ''skills''))" by auto
    then have "nonempty_text (js_or (get_member v (str ''summary'')) (summary (createFallbackSummary d)))"
      and "nonempty_text (js_or (get_member v (str ''skills'')) (skills (createFallbackSummary d)))"
      by (simp_all add: js_or_text fallback_usable del: get_member.simps)
    with r g Some show ?thesis
      by (auto simp: generateIntroSummary_def Let_def simp del: get_member.simps split: if_splits)
  qed
qed

text \<open>
  For all form fields and every outcome of the generator call, the level handed to the
  caller is one of Beginner, Builder, Pro, and the summary and the skills are truthy
  (never the empty string). They are non-empty strings whenever the generator is
  unavailable, throws, returns no, blank or non-JSON text, or returns JSON whose
  \<^verbatim>\<open>summary\<close> and \<^verbatim>\<open>skills\<close> members are strings, missing or falsy.
\<close>

lemma summary_pipeline_usable:
  "experienceLevel (chosen_summary (generateIntroSummary ai gen d)) \<in> set validLevels
   \<and> js_truthy (summary (chosen_summary (generateIntroSummary ai gen d)))
   \<and> js_truthy (skills (chosen_summary (generateIntroSummary ai gen d)))
   \<and> ((\<forall>t v. gen = GenText t \<and> JSON_parse (clean_response t) = Some v \<longrightarrow>
              text_or_unset (get_member v (str ''summary'')) \<and>
              text_or_unset (get_member v (str ''skills'')))
        \<longrightarrow> nonempty_text (summary (chosen_summary (generateIntroSummary ai gen d)))
          \<and> nonempty_text (skills (chosen_summary (generateIntroSummary ai gen d))))"
proof (cases "generateIntroSummary ai gen d")
  case (AiSuccess s)
  then show ?thesis
    using success_usable [OF AiSuccess] success_text [OF AiSuccess]
    by (simp add: chosen_summary_def)
next
  case (AiFailure err fb)
  then have "fb = createFallbackSummary d" by (rule failure_is_fallback)
  with AiFailure show ?thesis
    by (simp add: chosen_summary_def fallback_usable nonempty_text_truthy Beginner_valid)
qed

lemma summary_pipeline_usable_instances:
  "nonempty_text (summary (chosen_summary (generateIntroSummary True (GenText fenced) ravi)))
   \<and> nonempty_text (skills (chosen_summary (generateIntroSummary True (GenText fenced) ravi)))
   \<and> nonempty_text (summary (chosen_summary (generateIntroSummary True (GenText not_json) ravi)))
   \<and> nonempty_text (summary (chosen_summary (generateIntroSummary True GenThrows ravi)))"
proof -
  have p: "JSON_parse (clean_response fenced) =
     Some (JObject [(str ''summary'', JString (str ''x'')),
                    (str ''experienceLevel'', JString (str ''Pro'')),
                    (str ''skills'', JString (str ''Go''))])"
    by (simp only: clean_fenced parse_unfenced)
  have q: "JSON_parse (clean_response not_json) = None"
    by (simp only: clean_not_json parse_not_json)
  have 1: "\<forall>t v. GenText fenced = GenText t \<and> JSON_parse (clean_response t) = Some v \<longrightarrow>
              text_or_unset (get_member v (str ''summary'')) \<and>
              text_or_unset (get_member v (str ''skills''))"
    by (auto simp: p unparsed_object_members text_or_unset_def simp del: get_member.simps)
  have 2: "\<forall>t v. GenText not_json = GenText t \<and> JSON_parse (clean_response t) = Some v \<longrightarrow>
              text_or_unset (get_member v (str ''summary'')) \<and>
              text_or_unset (get_member v (str ''skills''))"
    by (auto simp: q)
  show ?thesis
    using summary_pipeline_usable [of True "GenText fenced" ravi]
      summary_pipeline_usable [of True "GenText not_json" ravi]
      summary_pipeline_usable [of True GenThrows ravi] 1 2
    by simp
qed

section \<open>A concrete run\<close>

text \<open>
  A concrete run, used where a statement is checked on explicit data: two users, an empty
  state, an environment in which every platform call succeeds (the generator is not
  available, so the fallback is used; no number is ever rendered), and the submission of
  the form by the first user. \<open>no_other\<close> stands in for the handlers of the project
  workflow.
\<close>

definition alice :: jsstring where "alice = str ''1001''"
definition bob :: jsstring where "bob = str ''2002''"

definition w0 :: world where
  "w0 = \<lparr> store = Map.empty, channel = Map.empty \<rparr>"

definition e_ok :: env where
  "e_ok = \<lparr> defer_ok = True, show_modal_ok = True,
            config_profileChannelId = Some (str ''555''), env_PROFILE_CHANNEL_ID = None,
            channel_reachable = True, ai_ready = False, generator = GenThrows,
            fetch_ok = True, delete_ok = True, send_result = Some (str ''9001''),
            number_text = (\<lambda>q. str ''0'') \<rparr>"

definition no_other :: "env \<Rightarrow> interaction \<Rightarrow> world \<Rightarrow> world \<times> response list" where
  "no_other e i w = (w, [])"

definition submit :: interaction where
  "submit = \<lparr> user = alice, customId = str ''intro_modal'', intro_name = str ''Ravi'',
              intro_role = [], intro_institution = [], intro_interests = str ''NLP'',
              intro_details = [] \<rparr>"

section \<open>Creating a profile\<close>

lemma handleIntroModal_resolved:
  assumes "defer_ok e" and "id_truthy (id_or (config_profileChannelId e) (env_PROFILE_CHANNEL_ID e))" and "channel_reachable e"
  shows "handleIntroModal e i w =
           (case build_embed (number_text e) (user i) (form_data i)
              (chosen_summary (generateIntroSummary (ai_ready e) (generator e) (form_data i))) of
              None \<Rightarrow>
                (retract_existing e (user i) w, [EditReply Processing, SafeError ProcessingError])
            | Some msg \<Rightarrow>
                (case send_result e of
                   None \<Rightarrow>
                     (retract_existing e (user i) w, [EditReply Processing, EditReply PostFailed])
                 | Some mid \<Rightarrow>
                     (saveUserProfile (user i) mid (form_data i)
                        (chosen_summary (generateIntroSummary (ai_ready e) (generator e) (form_data i)))
                        (send mid msg (retract_existing e (user i) w)),
                      [EditReply Processing,
                       EditReply (Posted (experienceLevel
                         (chosen_summary (generateIntroSummary (ai_ready e) (generator e) (form_data i)))))])))"
  using assms by (simp add: handleIntroModal_def Let_def channels_fetch_def)

lemma retract_existing_none:
  "getUserProfile w userId = None \<Longrightarrow> retract_existing e userId w = w"
  by (simp add: retract_existing_def)





lemma submit_facts:
  "getUserProfile w0 (user submit) = None" "defer_ok e_ok"
  "id_truthy (id_or (config_profileChannelId e_ok) (env_PROFILE_CHANNEL_ID e_ok))"
  "channel_reachable e_ok" "send_result e_ok = Some (str ''9001'')"
  by (simp_all add: getUserProfile_def w0_def e_ok_def id_truthy_def id_or_def str_def)

lemma e_ok_summary:
  "chosen_summary (generateIntroSummary (ai_ready e_ok) (generator e_ok) d)
     = createFallbackSummary d"
  by (simp add: e_ok_def generateIntroSummary_def chosen_summary_def)

lemma submit_embed:
  "build_embed num alice (form_data submit) (createFallbackSummary (form_data submit)) \<noteq> None"
  by (simp add: build_embed_def embed_description_def raw_fields_def form_data_def submit_def
      createFallbackSummary_def or_default_def alice_def str_def cu_def)


section \<open>Ownership of the controls\<close>

lemma split_on_no_sep: "sep \<notin> set s \<Longrightarrow> split_on sep s = [s]"
  by (induction s) auto

lemma tagged_update: "0x5F \<notin> set owner \<Longrightarrow>
    tagged_user 2 (i\<lparr>customId := update_id owner\<rparr>) = Some owner"
  by (simp add: tagged_user_def update_id_def str_def cu_def split_on_no_sep numeral_2_eq_2)

lemma tagged_delete: "0x5F \<notin> set owner \<Longrightarrow>
    tagged_user 2 (i\<lparr>customId := delete_id owner\<rparr>) = Some owner"
  by (simp add: tagged_user_def delete_id_def str_def cu_def split_on_no_sep numeral_2_eq_2)

lemma tagged_confirm: "0x5F \<notin> set owner \<Longrightarrow>
    tagged_user 3 (i\<lparr>customId := confirm_id owner\<rparr>) = Some owner"
  by (simp add: tagged_user_def confirm_id_def str_def cu_def split_on_no_sep numeral_3_eq_3)

lemma route_update: "on_button other e (i\<lparr>customId := update_id owner\<rparr>) w
    = handleUpdateIntroButton e (i\<lparr>customId := update_id owner\<rparr>) w"
  by (simp add: on_button_def update_id_def starts_with_def str_def cu_def)

lemma route_delete: "on_button other e (i\<lparr>customId := delete_id owner\<rparr>) w
    = handleDeleteIntroButton e (i\<lparr>customId := delete_id owner\<rparr>) w"
  by (simp add: on_button_def delete_id_def starts_with_def str_def cu_def)

lemma route_confirm: "on_button other e (i\<lparr>customId := confirm_id owner\<rparr>) w
    = handleConfirmDeleteIntro e (i\<lparr>customId := confirm_id owner\<rparr>) w"
  by (simp add: on_button_def confirm_id_def starts_with_def str_def cu_def)

lemma route_cancel: "on_button other e (i\<lparr>customId := cancel_id owner\<rparr>) w
    = handleCancelDeleteIntro e (i\<lparr>customId := cancel_id owner\<rparr>) w"
  by (simp add: on_button_def cancel_id_def starts_with_def str_def cu_def)

text \<open>
  Claim C2: a press of the update, delete or confirm control tagged with \<open>owner\<close> by
  another user is answered with the ownership message and leaves the state (records and
  messages) as it was. User ids are platform snowflakes, strings of decimal digits; the
  statement needs only that the owner's id has no underscore, the separator the tag is
  split at.
\<close>

theorem foreign_control_rejected:
  assumes "0x5F \<notin> set owner" and "user i \<noteq> owner"
  shows "on_button other e (i\<lparr>customId := update_id owner\<rparr>) w = (w, [Reply OwnUpdateOnly []])
       \<and> on_button other e (i\<lparr>customId := delete_id owner\<rparr>) w = (w, [Reply OwnDeleteOnly []])
       \<and> on_button other e (i\<lparr>customId := confirm_id owner\<rparr>) w = (w, [Update OwnDeleteOnly])"
  using assms
  by (simp add: route_update route_delete route_confirm
      handleUpdateIntroButton_def handleDeleteIntroButton_def handleConfirmDeleteIntro_def
      tagged_update tagged_delete tagged_confirm)

definition w1 :: world where
  "w1 = fst (handleIntroModal e_ok submit w0)"

lemma alice_plain: "0x5F \<notin> set alice"
  by (simp add: alice_def str_def cu_def)

theorem foreign_control_rejected_witness:
  "on_button no_other e_ok (submit\<lparr>user := bob, customId := update_id alice\<rparr>) w1
     = (w1, [Reply OwnUpdateOnly []])
   \<and> on_button no_other e_ok (submit\<lparr>user := bob, customId := delete_id alice\<rparr>) w1
     = (w1, [Reply OwnDeleteOnly []])
   \<and> on_button no_other e_ok (submit\<lparr>user := bob, customId := confirm_id alice\<rparr>) w1
     = (w1, [Update OwnDeleteOnly])"
proof -
  have "user (submit\<lparr>user := bob\<rparr>) \<noteq> alice"
    by (simp add: alice_def bob_def str_def cu_def)
  from foreign_control_rejected [OF alice_plain this, of no_other e_ok w1]
  show ?thesis by simp
qed


section \<open>Deleting a profile\<close>

lemma user_submit: "user submit = alice"
  by (simp add: submit_def)

lemma w1_facts:
  "getUserProfile w1 alice =
     Some \<lparr> messageId = Some (str ''9001''), introData = form_data submit,
            generated = createFallbackSummary (form_data submit) \<rparr>"
  "channel w1 (str ''9001'') \<noteq> None"
proof -
  obtain msg where m: "build_embed (number_text e_ok) alice (form_data submit)
      (createFallbackSummary (form_data submit)) = Some msg"
    using submit_embed [of "number_text e_ok"] by auto
  have r: "handleIntroModal e_ok submit w0 =
      (saveUserProfile alice (str ''9001'') (form_data submit)
         (createFallbackSummary (form_data submit)) (send (str ''9001'') msg w0),
       [EditReply Processing,
        EditReply (Posted (experienceLevel (createFallbackSummary (form_data submit))))])"
    using handleIntroModal_resolved [of e_ok submit w0] submit_facts m
    by (simp add: e_ok_summary user_submit retract_existing_none)
  show "getUserProfile w1 alice =
     Some \<lparr> messageId = Some (str ''9001''), introData = form_data submit,
            generated = createFallbackSummary (form_data submit) \<rparr>"
    by (simp add: w1_def r getUserProfile_def saveUserProfile_def)
  show "channel w1 (str ''9001'') \<noteq> None"
    by (simp add: w1_def r saveUserProfile_def send_def)
qed


lemma confirm_delete_effect:
  assumes "0x5F \<notin> set (user i)" and "getUserProfile w (user i) = Some p"
    and "messageId p = Some mid" and "mid \<noteq> []"
  shows "handleConfirmDeleteIntro e (i\<lparr>customId := confirm_id (user i)\<rparr>) w =
           (deleteUserProfile (user i)
              (if channels_fetch e (id_or (config_profileChannelId e) (env_PROFILE_CHANNEL_ID e))
                  \<and> fetch_ok e \<and> delete_ok e \<and> channel w mid \<noteq> None
               then w\<lparr>channel := (channel w)(mid := None)\<rparr> else w),
            [Update IntroDeleted])"
proof -
  have "tagged_user 3 (i\<lparr>customId := confirm_id (user i)\<rparr>) = Some (user i)"
    using assms(1) by (rule tagged_confirm)
  with assms(2-4) show ?thesis
    by (auto simp: handleConfirmDeleteIntro_def Let_def fetch_and_delete_def)
qed

text \<open>
  Claim C6, amended: for the owner of a record with a posted message. The delete request
  only asks for confirmation, and cancel only acknowledges: both leave the state
  unchanged. Confirm removes the record and reports the deletion; it removes the message
  from the channel when the channel resolves and the message can be fetched and deleted,
  and leaves the channel as it was otherwise. A second confirm finds no record, changes
  nothing and answers that the introduction could not be found.
\<close>

theorem delete_flow:
  assumes "0x5F \<notin> set (user i)" and "getUserProfile w (user i) = Some p"
    and "messageId p = Some mid" and "mid \<noteq> []"
  shows "on_button other e (i\<lparr>customId := delete_id (user i)\<rparr>) w
           = (w, [Reply ConfirmDelete [confirm_id (user i), cancel_id (user i)]])
       \<and> on_button other e (i\<lparr>customId := cancel_id (user i)\<rparr>) w
           = (w, [Update DeletionCancelled])
       \<and> store (fst (on_button other e (i\<lparr>customId := confirm_id (user i)\<rparr>) w))
           = (store w)(user i := None)
       \<and> snd (on_button other e (i\<lparr>customId := confirm_id (user i)\<rparr>) w)
           = [Update IntroDeleted]
       \<and> (channels_fetch e (id_or (config_profileChannelId e) (env_PROFILE_CHANNEL_ID e))
            \<and> fetch_ok e \<and> delete_ok e \<longrightarrow>
          channel (fst (on_button other e (i\<lparr>customId := confirm_id (user i)\<rparr>) w))
            = (channel w)(mid := None))
       \<and> (\<not> (channels_fetch e (id_or (config_profileChannelId e) (env_PROFILE_CHANNEL_ID e))
               \<and> fetch_ok e \<and> delete_ok e) \<longrightarrow>
          channel (fst (on_button other e (i\<lparr>customId := confirm_id (user i)\<rparr>) w))
            = channel w)
       \<and> on_button other e' (i\<lparr>customId := confirm_id (user i)\<rparr>)
            (fst (on_button other e (i\<lparr>customId := confirm_id (user i)\<rparr>) w))
           = (fst (on_button other e (i\<lparr>customId := confirm_id (user i)\<rparr>) w),
              [Update IntroNotFound])"
proof -
  let ?c = "i\<lparr>customId := confirm_id (user i)\<rparr>"
  have t2: "tagged_user 2 (i\<lparr>customId := delete_id (user i)\<rparr>) = Some (user i)"
    using assms(1) by (rule tagged_delete)
  have t3: "tagged_user 3 ?c = Some (user i)"
    using assms(1) by (rule tagged_confirm)
  have req: "on_button other e (i\<lparr>customId := delete_id (user i)\<rparr>) w
           = (w, [Reply ConfirmDelete [confirm_id (user i), cancel_id (user i)]])"
    by (simp add: route_delete handleDeleteIntroButton_def t2)
  have can: "on_button other e (i\<lparr>customId := cancel_id (user i)\<rparr>) w
           = (w, [Update DeletionCancelled])"
    by (simp add: route_cancel handleCancelDeleteIntro_def)
  have con: "on_button other e ?c w =
           (deleteUserProfile (user i)
              (if channels_fetch e (id_or (config_profileChannelId e) (env_PROFILE_CHANNEL_ID e))
                  \<and> fetch_ok e \<and> delete_ok e \<and> channel w mid \<noteq> None
               then w\<lparr>channel := (channel w)(mid := None)\<rparr> else w),
            [Update IntroDeleted])"
    using confirm_delete_effect [OF assms, of e] by (simp add: route_confirm)
  have gone: "getUserProfile (fst (on_button other e ?c w)) (user i) = None"
    by (simp add: con getUserProfile_def deleteUserProfile_def)
  have rep: "on_button other e' ?c (fst (on_button other e ?c w))
           = (fst (on_button other e ?c w), [Update IntroNotFound])"
    using gone by (simp add: route_confirm handleConfirmDeleteIntro_def t3)
  have idem: "channel w mid = None \<Longrightarrow> (channel w)(mid := None) = channel w"
    by (rule ext) simp
  show ?thesis
    using req can rep idem by (auto simp: con deleteUserProfile_def)
qed



theorem delete_flow_witness:
  "on_button no_other e_ok (submit\<lparr>customId := cancel_id alice\<rparr>) w1
     = (w1, [Update DeletionCancelled])
   \<and> store (fst (on_button no_other e_ok (submit\<lparr>customId := confirm_id alice\<rparr>) w1)) alice
     = None
   \<and> channel (fst (on_button no_other e_ok (submit\<lparr>customId := confirm_id alice\<rparr>) w1))
       (str ''9001'') = None
   \<and> on_button no_other e_ok (submit\<lparr>customId := confirm_id alice\<rparr>)
        (fst (on_button no_other e_ok (submit\<lparr>customId := confirm_id alice\<rparr>) w1))
     = (fst (on_button no_other e_ok (submit\<lparr>customId := confirm_id alice\<rparr>) w1),
        [Update IntroNotFound])"
proof -
  have 1: "0x5F \<notin> set (user submit)"
    by (simp add: user_submit alice_plain)
  have 2: "getUserProfile w1 (user submit) =
     Some \<lparr> messageId = Some (str ''9001''), introData = form_data submit,
            generated = createFallbackSummary (form_data submit) \<rparr>"
    by (simp add: user_submit w1_facts)
  have 3: "messageId \<lparr> messageId = Some (str ''9001''), introData = form_data submit,
            generated = createFallbackSummary (form_data submit) \<rparr> = Some (str ''9001'')"
    by simp
  have 4: "str ''9001'' \<noteq> []"
    by (simp add: str_def)
  have ok: "channels_fetch e_ok (id_or (config_profileChannelId e_ok) (env_PROFILE_CHANNEL_ID e_ok))
      \<and> fetch_ok e_ok \<and> delete_ok e_ok"
    by (simp add: channels_fetch_def submit_facts) (simp add: e_ok_def)
  from delete_flow [OF 1 2 3 4, of no_other e_ok e_ok] ok
  show ?thesis by (simp add: user_submit)
qed

text \<open>
  Claim C6, as stated: request then confirm removes both the record and the artifact. It
  does not when the platform refuses to delete the message: the record is removed and
  the message stays on the channel.
\<close>

theorem failed_retraction_counterexample:
  "getUserProfile
     (fst (handleConfirmDeleteIntro (e_ok\<lparr>delete_ok := False\<rparr>)
             (submit\<lparr>customId := confirm_id alice\<rparr>) w1)) alice = None
   \<and> channel
       (fst (handleConfirmDeleteIntro (e_ok\<lparr>delete_ok := False\<rparr>)
               (submit\<lparr>customId := confirm_id alice\<rparr>) w1)) (str ''9001'')
     = channel w1 (str ''9001'')
   \<and> channel w1 (str ''9001'') \<noteq> None"
proof -
  have 1: "0x5F \<notin> set (user submit)"
    by (simp add: user_submit alice_plain)
  have 2: "getUserProfile w1 (user submit) =
     Some \<lparr> messageId = Some (str ''9001''), introData = form_data submit,
            generated = createFallbackSummary (form_data submit) \<rparr>"
    by (simp add: user_submit w1_facts)
  have 4: "str ''9001'' \<noteq> []"
    by (simp add: str_def)
  from confirm_delete_effect [OF 1 2 _ 4, of "e_ok\<lparr>delete_ok := False\<rparr>"]
  show ?thesis
    by (simp add: user_submit getUserProfile_def deleteUserProfile_def w1_facts)
qed



section \<open>An instance without a channel id\<close>






section \<open>Updating a profile\<close>








section \<open>A response whose members are not text\<close>

lemma empties_result:
  "generateIntroSummary True (GenText empties) d =
     AiSuccess \<lparr> summary = JArray [], experienceLevel = str ''Pro'', skills = JArray [] \<rparr>"
proof -
  have p: "JSON_parse (clean_response empties) =
     Some (JObject [(str ''summary'', JArray []),
                    (str ''experienceLevel'', JString (str ''Pro'')),
                    (str ''skills'', JArray [])])"
    by (simp only: clean_empties parse_empties)
  have ne: "empties \<noteq> []" "trim empties \<noteq> []"
    by (simp_all add: empties_def trim_def is_js_whitespace_def str_def cu_def)
  show ?thesis
    using ne by (simp add: generateIntroSummary_def p Let_def
        unparsed_object_members js_or_def Pro_valid del: get_member.simps)
qed

text \<open>
  Claim C3 at a failing input: the generator answers
  \<^verbatim>\<open>{"summary":[],"experienceLevel":"Pro","skills":[]}\<close>. The summary and the skills
  handed to the caller are the empty array, not a non-empty text; the embed cannot be
  built from them, so the submission ends in the error reply and nothing is published
  or saved.
\<close>

theorem empty_array_summary_blocks_creation:
  "summary (chosen_summary (generateIntroSummary True (GenText empties) (form_data submit)))
     = JArray []
   \<and> skills (chosen_summary (generateIntroSummary True (GenText empties) (form_data submit)))
     = JArray []
   \<and> handleIntroModal (e_ok\<lparr>ai_ready := True, generator := GenText empties\<rparr>) submit w0
     = (w0, [EditReply Processing, SafeError ProcessingError])"
proof -
  let ?e = "e_ok\<lparr>ai_ready := True, generator := GenText empties\<rparr>"
  have b: "build_embed num u d \<lparr> summary = JArray [], experienceLevel = str ''Pro'',
      skills = JArray [] \<rparr> = None" for num u d
    by (simp add: build_embed_def raw_fields_def)
  have "handleIntroModal ?e submit w0
     = (w0, [EditReply Processing, SafeError ProcessingError])"
    using handleIntroModal_resolved [of ?e submit w0] submit_facts
    by (simp add: empties_result chosen_summary_def b retract_existing_none)
  then show ?thesis
    by (simp add: empties_result chosen_summary_def)
qed

end
